theory Spec2Isabelle
  imports Main
begin

section \<open>Strings\<close>

text \<open>
  A Python string is modelled by the bytes of its UTF-8 encoding: an ASCII character is
  one byte below 128, and every byte of a non-ASCII character is 128 or more, so an
  ASCII byte in a string always stands for that ASCII character. Tests for emptiness,
  equality, and searching or splitting at \<open>'.'\<close>, \<open>'/'\<close> or \<open>' '\<close> are therefore
  the same on the bytes as on the characters.

  \<open>str.upper\<close> and \<open>str.strip\<close> follow the Unicode tables; they are library
  parameters of the model (\<open>str_upper\<close> and \<open>str_strip\<close> of \<open>lib\<close> below). The
  definitions of this section say what the string methods do on ASCII text:
  \<open>upper\<close> maps \<open>a\<close>..\<open>z\<close> to \<open>A\<close>..\<open>Z\<close>, \<open>lower\<close> maps \<open>A\<close>..\<open>Z\<close> to
  \<open>a\<close>..\<open>z\<close>, both leave every other ASCII character alone, and \<open>strip()\<close> removes
  leading and trailing tabs, line feeds, vertical tabs, form feeds, carriage returns,
  the separators 0x1C..0x1F and spaces.
\<close>

definition is_ascii :: "string \<Rightarrow> bool" where
  "is_ascii s \<longleftrightarrow> list_all (\<lambda>c. \<not> digit7 c) s"

definition upper_char :: "char \<Rightarrow> char" where
  "upper_char c =
     (case map_of (zip ''abcdefghijklmnopqrstuvwxyz'' ''ABCDEFGHIJKLMNOPQRSTUVWXYZ'') c of
        Some u \<Rightarrow> u
      | None \<Rightarrow> c)"

definition lower_char :: "char \<Rightarrow> char" where
  "lower_char c =
     (case map_of (zip ''ABCDEFGHIJKLMNOPQRSTUVWXYZ'' ''abcdefghijklmnopqrstuvwxyz'') c of
        Some l \<Rightarrow> l
      | None \<Rightarrow> c)"

definition ascii_upper :: "string \<Rightarrow> string" where
  "ascii_upper s = map upper_char s"

text \<open>
  \<open>lower\<close> is the lower-casing of \<open>allowed_file\<close>, which compares the result with the
  six ASCII extensions. It changes the letters \<open>A\<close>..\<open>Z\<close> only: the characters outside
  ASCII that \<open>str.lower\<close> changes do not become letters of an allowed extension.
\<close>

definition lower :: "string \<Rightarrow> string" where
  "lower s = map lower_char s"

definition ascii_isspace :: "char \<Rightarrow> bool" where
  "ascii_isspace c \<longleftrightarrow>
     c \<in> set [CHR 0x09, CHR 0x0A, CHR 0x0B, CHR 0x0C, CHR 0x0D,
               CHR 0x1C, CHR 0x1D, CHR 0x1E, CHR 0x1F, CHR '' '']"

definition ascii_strip :: "string \<Rightarrow> string" where
  "ascii_strip s = rev (dropWhile ascii_isspace (rev (dropWhile ascii_isspace s)))"

text \<open>
  Two ASCII strings are case variants of each other when they agree after
  lower-casing (\<open>p.lower() == q.lower()\<close>).
\<close>

definition ascii_case_variant :: "string \<Rightarrow> string \<Rightarrow> bool" where
  "ascii_case_variant p q \<longleftrightarrow> is_ascii p \<and> is_ascii q \<and> lower p = lower q"

text \<open>\<open>s.replace(' ', '_')\<close>\<close>

definition replace_spaces :: "string \<Rightarrow> string" where
  "replace_spaces s = map (\<lambda>c. if c = CHR '' '' then CHR ''_'' else c) s"

text \<open>
  Python list indexing \<open>xs[i]\<close>: a negative index counts from the end, and an index out
  of range raises \<open>IndexError\<close> (\<open>None\<close> here).
\<close>

definition py_index :: "'a list \<Rightarrow> int \<Rightarrow> 'a option" where
  "py_index xs i =
     (if 0 \<le> i \<and> i < int (length xs) then Some (xs ! nat i)
      else if - int (length xs) \<le> i \<and> i < 0 then Some (xs ! nat (int (length xs) + i))
      else None)"


section \<open>Data model (models.py)\<close>

text \<open>
  The three tables of \<open>models.py\<close>. Field names are the source's, except that \<open>id\<close> is
  \<open>cid\<close> for crew, and that the fields of \<open>StaffMember\<close> and \<open>Admin\<close> carry the
  prefixes \<open>s_\<close> and \<open>a_\<close> where the name is shared with \<open>CrewMember\<close>. Nullable columns
  are options, dates are (year, month, day), timestamps are clock readings, and the
  integers are Python's unbounded ones. Column lengths (\<open>String(32)\<close> and so on) are not
  enforced by the model.
\<close>

type_synonym date = "int \<times> int \<times> int"

record crew_member =
  cid :: nat
  name :: string
  rank :: string
  passport :: string
  nationality :: string
  date_of_birth :: "date option"
  years_experience :: "int option"
  last_vessel_type :: string
  availability_date :: "date option"
  passport_file :: "string option"
  cdc_file :: "string option"
  resume_file :: "string option"
  photo_file :: "string option"
  status :: int
  created_at :: nat
  updated_at :: nat

record staff_member =
  s_id :: nat
  full_name :: string
  email_or_whatsapp :: string
  position_applying :: string
  department :: string
  s_years_experience :: "int option"
  current_employer :: string
  location :: string
  s_availability_date :: "date option"
  s_resume_file :: "string option"
  s_photo_file :: "string option"
  s_status :: int
  s_created_at :: nat
  s_updated_at :: nat

record admin =
  a_id :: nat
  username :: string
  password_hash :: string
  a_created_at :: nat

text \<open>\<open>CrewMember.get_status_name\<close> (models.py, lines 47-50).\<close>

definition status_names :: "string list" where
  "status_names = [''Registered'', ''Screening'', ''Documents Verified'', ''Approved'']"

definition get_status_name :: "crew_member \<Rightarrow> string" where
  "get_status_name self =
     (if 0 \<le> status self \<and> status self < int (length status_names)
      then status_names ! nat (status self)
      else ''Unknown'')"


section \<open>Application state\<close>

text \<open>
  The database is the three tables in insertion order, the upload directory is a map
  from paths to file contents, and the Flask session holds the two keys the application
  writes, \<open>admin_logged_in\<close> and \<open>admin_username\<close> (\<open>None\<close> when the key is absent).
  Flash messages are handler output: each failing return of a handler is a value of
  \<open>error\<close>, named after the message it flashes. Database and file-system operations are
  assumed not to fail for reasons outside the application (lost connections, full disks).
\<close>

record state =
  crew :: "crew_member list"
  staff :: "staff_member list"
  admins :: "admin list"
  fs :: "string \<rightharpoonup> string"

record session =
  admin_logged_in :: "bool option"
  admin_username :: "string option"

record uploaded_file =
  filename :: string
  content :: string

record request =
  http_method :: string
  form :: "string \<rightharpoonup> string"
  files :: "string \<rightharpoonup> uploaded_file"

text \<open>
  Library functions the application calls and the repository does not define:
  \<open>str.strip()\<close> and \<open>str.upper()\<close>,
  \<open>datetime.strptime(s, '%Y-%m-%d').date()\<close> and \<open>int(s)\<close> (\<open>None\<close> for \<open>ValueError\<close>),
  werkzeug's \<open>secure_filename\<close>, \<open>generate_password_hash\<close> and
  \<open>check_password_hash\<close>, and
  \<open>strftime('%Y%m%d_%H%M%S')\<close> of a clock reading. The model takes them as parameters.
\<close>

record lib =
  str_strip :: "string \<Rightarrow> string"
  str_upper :: "string \<Rightarrow> string"
  strptime_date :: "string \<Rightarrow> date option"
  py_int :: "string \<Rightarrow> int option"
  secure_filename :: "string \<Rightarrow> string"
  generate_password_hash :: "string \<Rightarrow> string"
  check_password_hash :: "string \<Rightarrow> string \<Rightarrow> bool"
  strftime :: "nat \<Rightarrow> string"

text \<open>
  What the two string methods are known to do on ASCII text: on an ASCII string they
  are the functions of the first section.
\<close>

definition ascii_lib :: "lib \<Rightarrow> bool" where
  "ascii_lib L \<longleftrightarrow>
     (\<forall>s. is_ascii s \<longrightarrow> str_upper L s = ascii_upper s \<and> str_strip L s = ascii_strip s)"

datatype error =
    ValidationError      \<comment> \<open>a required field is empty, or a date or number does not parse\<close>
  | DuplicateKey         \<comment> \<open>'A crew member with this passport number already exists.'\<close>
  | NotFound             \<comment> \<open>\<open>get_or_404\<close> aborts, or the tracker finds no record\<close>
  | InvalidCredentials   \<comment> \<open>'Invalid username or password.'\<close>
  | Unauthenticated      \<comment> \<open>\<open>require_admin\<close> redirects to the login page\<close>
  | UpdateFailed         \<comment> \<open>'Error updating status.'\<close>
  | IntegrityError       \<comment> \<open>the unique constraint on \<open>passport\<close> rejects an insert\<close>

text \<open>\<open>request.form.get(key, '')\<close>\<close>

definition form_get :: "request \<Rightarrow> string \<Rightarrow> string" where
  "form_get req key = (case form req key of None \<Rightarrow> [] | Some v \<Rightarrow> v)"


section \<open>File store (app.py, lines 30-60)\<close>

definition ALLOWED_EXTENSIONS :: "string list" where
  "ALLOWED_EXTENSIONS = [''pdf'', ''doc'', ''docx'', ''jpg'', ''jpeg'', ''png'']"

text \<open>\<open>filename.rsplit('.', 1)[1]\<close>, for a filename that contains a dot.\<close>

definition rsplit_ext :: "string \<Rightarrow> string" where
  "rsplit_ext fname = rev (takeWhile (\<lambda>c. c \<noteq> CHR ''.'') (rev fname))"

definition allowed_file :: "string \<Rightarrow> bool" where
  "allowed_file fname \<longleftrightarrow>
     CHR ''.'' \<in> set fname \<and> lower (rsplit_ext fname) \<in> set ALLOWED_EXTENSIONS"

text \<open>
  \<open>os.path.splitext\<close> (posixpath): the extension starts at the last dot of the last
  path component, unless only dots precede it there.
\<close>

definition splitext :: "string \<Rightarrow> string \<times> string" where
  "splitext p =
     (let tail = rev (takeWhile (\<lambda>c. c \<noteq> CHR ''/'') (rev p)) in
      if CHR ''.'' \<in> set tail then
        (let ext = CHR ''.'' # rsplit_ext tail;
             stem = take (length tail - length ext) tail
         in if \<exists>c \<in> set stem. c \<noteq> CHR ''.''
            then (take (length p - length ext) p, ext)
            else (p, []))
      else (p, []))"

text \<open>\<open>os.path.join\<close> (posixpath): an absolute component discards what precedes it.\<close>

definition path_join2 :: "string \<Rightarrow> string \<Rightarrow> string" where
  "path_join2 a b =
     (if b \<noteq> [] \<and> hd b = CHR ''/'' then b
      else if a = [] \<or> last a = CHR ''/'' then a @ b
      else a @ ''/'' @ b)"

definition path_join :: "string \<Rightarrow> string list \<Rightarrow> string" where
  "path_join a ps = foldl path_join2 a ps"

definition UPLOAD_FOLDER :: string where
  "UPLOAD_FOLDER = ''uploads''"

text \<open>
  \<open>save_uploaded_file(file, folder, prefix)\<close>. The argument is \<open>None\<close> when the form has
  no such file; a \<open>FileStorage\<close> is falsy when its filename is empty. The result is the
  stored filename, if any, and the upload directory afterwards.
\<close>

definition save_uploaded_file ::
  "lib \<Rightarrow> nat \<Rightarrow> (string \<rightharpoonup> string) \<Rightarrow> uploaded_file option \<Rightarrow> string \<Rightarrow> string
     \<Rightarrow> string option \<times> (string \<rightharpoonup> string)" where
  "save_uploaded_file L now disk file folder prefix =
     (case file of
        None \<Rightarrow> (None, disk)
      | Some f \<Rightarrow>
          if filename f \<noteq> [] \<and> allowed_file (filename f) then
            (let fname = secure_filename L (filename f);
                 (nm, ext) = splitext fname;
                 safe_filename = prefix @ ''_'' @ nm @ ''_'' @ strftime L now @ ext;
                 file_path = path_join UPLOAD_FOLDER [folder, safe_filename]
             in (Some safe_filename, disk(file_path \<mapsto> content f)))
          else (None, disk))"


section \<open>Session gate (app.py, lines 80-89 and 336-373)\<close>

text \<open>\<open>session.get('admin_logged_in', False)\<close>\<close>

definition is_admin_logged_in :: "session \<Rightarrow> bool" where
  "is_admin_logged_in sess = (case admin_logged_in sess of None \<Rightarrow> False | Some b \<Rightarrow> b)"

datatype login_page = LoginForm | ToDashboard

text \<open>
  \<open>admin_login\<close>. An empty username or password is refused with 'Please enter both
  username and password.' (\<open>ValidationError\<close>) before the directory is consulted.
\<close>

definition admin_login ::
  "lib \<Rightarrow> request \<Rightarrow> state \<Rightarrow> session \<Rightarrow> (error + login_page) \<times> session" where
  "admin_login L req st sess =
     (if http_method req = ''POST'' then
        (let uname = str_strip L (form_get req ''username'');
             pw = form_get req ''password''
         in if uname = [] \<or> pw = [] then (Inl ValidationError, sess)
            else
              (case find (\<lambda>a. username a = uname) (admins st) of
                 Some a \<Rightarrow>
                   if check_password_hash L (password_hash a) pw
                   then (Inr ToDashboard,
                         sess\<lparr>admin_logged_in := Some True, admin_username := Some uname\<rparr>)
                   else (Inl InvalidCredentials, sess)
               | None \<Rightarrow> (Inl InvalidCredentials, sess)))
      else if is_admin_logged_in sess then (Inr ToDashboard, sess)
      else (Inr LoginForm, sess))"

definition admin_logout :: "session \<Rightarrow> session" where
  "admin_logout sess = sess\<lparr>admin_logged_in := None, admin_username := None\<rparr>"


section \<open>Applicant registry (app.py, lines 140-269 and 307-331)\<close>

text \<open>
  Auto-increment primary keys: one more than the largest key in the table (rows are
  never deleted).
\<close>

definition new_id :: "nat list \<Rightarrow> nat" where
  "new_id ids = Suc (fold max ids 0)"

text \<open>
  \<open>db.session.add\<close> and \<open>commit\<close> of a crew row: the unique constraint on \<open>passport\<close>
  (models.py, line 25) rejects a row whose passport is already stored.
\<close>

definition insert_crew :: "crew_member \<Rightarrow> crew_member list \<Rightarrow> crew_member list option" where
  "insert_crew c cs = (if passport c \<in> set (map passport cs) then None else Some (cs @ [c]))"

text \<open>
  The optional fields inside the \<open>try\<close> of the registration handlers: an empty string
  is no value, a string that does not parse raises \<open>ValueError\<close> (the outer \<open>None\<close>).
\<close>

definition parse_date :: "lib \<Rightarrow> string \<Rightarrow> date option option" where
  "parse_date L s =
     (if s = [] then Some None
      else case strptime_date L s of None \<Rightarrow> None | Some d \<Rightarrow> Some (Some d))"

definition parse_int :: "lib \<Rightarrow> string \<Rightarrow> int option option" where
  "parse_int L s =
     (if s = [] then Some None
      else case py_int L s of None \<Rightarrow> None | Some n \<Rightarrow> Some (Some n))"

datatype register_page = RegisterForm | ThankYou crew_member

text \<open>
  \<open>register\<close> (POST /register). The clock is read once for the request. The checks run
  in the source's order: required fields, duplicate passport, dates and numbers; only
  then are the files stored and the row inserted.
\<close>

definition register ::
  "lib \<Rightarrow> request \<Rightarrow> state \<Rightarrow> nat \<Rightarrow> (error + register_page) \<times> state" where
  "register L req st now =
     (if http_method req = ''POST'' then
        (let nm = str_strip L (form_get req ''name'');
             rk = str_strip L (form_get req ''rank'');
             pp = str_strip L (form_get req ''passport'');
             natl = str_strip L (form_get req ''nationality'');
             dob = form_get req ''date_of_birth'';
             years_exp = form_get req ''years_experience'';
             vessel_type = str_strip L (form_get req ''last_vessel_type'');
             availability = form_get req ''availability_date''
         in if nm = [] \<or> rk = [] \<or> pp = [] then (Inl ValidationError, st)
            else if find (\<lambda>c. passport c = str_upper L pp) (crew st) \<noteq> None
              then (Inl DuplicateKey, st)
            else
              (case parse_date L dob of
                 None \<Rightarrow> (Inl ValidationError, st)
               | Some dob' \<Rightarrow>
              (case parse_date L availability of
                 None \<Rightarrow> (Inl ValidationError, st)
               | Some availability' \<Rightarrow>
              (case parse_int L years_exp of
                 None \<Rightarrow> (Inl ValidationError, st)
               | Some years' \<Rightarrow>
                 (let (f1, d1) = save_uploaded_file L now (fs st) (files req ''passport_file'')
                                   ''crew'' (replace_spaces nm @ ''_passport'');
                      (f2, d2) = save_uploaded_file L now d1 (files req ''cdc_file'')
                                   ''crew'' (replace_spaces nm @ ''_cdc'');
                      (f3, d3) = save_uploaded_file L now d2 (files req ''resume_file'')
                                   ''crew'' (replace_spaces nm @ ''_resume'');
                      (f4, d4) = save_uploaded_file L now d3 (files req ''photo_file'')
                                   ''crew'' (replace_spaces nm @ ''_photo'');
                      new_crew = \<lparr>cid = new_id (map cid (crew st)), name = nm, rank = rk,
                                  passport = str_upper L pp, nationality = natl,
                                  date_of_birth = dob', years_experience = years',
                                  last_vessel_type = vessel_type,
                                  availability_date = availability',
                                  passport_file = f1, cdc_file = f2, resume_file = f3,
                                  photo_file = f4, status = 0,
                                  created_at = now, updated_at = now\<rparr>
                  in case insert_crew new_crew (crew st) of
                       None \<Rightarrow> (Inl IntegrityError, st\<lparr>fs := d4\<rparr>)
                     | Some cs \<Rightarrow> (Inr (ThankYou new_crew), st\<lparr>crew := cs, fs := d4\<rparr>))))))
      else (Inr RegisterForm, st))"

datatype register_staff_page = RegisterStaffForm | ThankYouStaff staff_member

definition register_staff ::
  "lib \<Rightarrow> request \<Rightarrow> state \<Rightarrow> nat \<Rightarrow> (error + register_staff_page) \<times> state" where
  "register_staff L req st now =
     (if http_method req = ''POST'' then
        (let fname = str_strip L (form_get req ''full_name'');
             contact = str_strip L (form_get req ''email_or_whatsapp'');
             pos = str_strip L (form_get req ''position_applying'');
             dept = str_strip L (form_get req ''department'');
             years_exp = form_get req ''years_experience'';
             employer = str_strip L (form_get req ''current_employer'');
             loc = str_strip L (form_get req ''location'');
             availability = form_get req ''availability_date''
         in if fname = [] \<or> contact = [] \<or> pos = [] \<or> dept = []
              then (Inl ValidationError, st)
            else
              (case parse_date L availability of
                 None \<Rightarrow> (Inl ValidationError, st)
               | Some availability' \<Rightarrow>
              (case parse_int L years_exp of
                 None \<Rightarrow> (Inl ValidationError, st)
               | Some years' \<Rightarrow>
                 (let (f1, d1) = save_uploaded_file L now (fs st) (files req ''resume_file'')
                                   ''staff'' (replace_spaces fname @ ''_resume'');
                      (f2, d2) = save_uploaded_file L now d1 (files req ''photo_file'')
                                   ''staff'' (replace_spaces fname @ ''_photo'');
                      new_staff = \<lparr>s_id = new_id (map s_id (staff st)), full_name = fname,
                                   email_or_whatsapp = contact, position_applying = pos,
                                   department = dept, s_years_experience = years',
                                   current_employer = employer, location = loc,
                                   s_availability_date = availability',
                                   s_resume_file = f1, s_photo_file = f2, s_status = 1,
                                   s_created_at = now, s_updated_at = now\<rparr>
                  in (Inr (ThankYouStaff new_staff),
                      st\<lparr>staff := staff st @ [new_staff], fs := d2\<rparr>)))))
      else (Inr RegisterStaffForm, st))"

datatype tracker_page = TrackerForm | TrackerResult crew_member

text \<open>\<open>track\<close> (POST /track): the passport is trimmed and upper-cased before the query.\<close>

definition track :: "lib \<Rightarrow> request \<Rightarrow> state \<Rightarrow> error + tracker_page" where
  "track L req st =
     (if http_method req = ''POST'' then
        (let pp = str_upper L (str_strip L (form_get req ''passport''))
         in if pp = [] then Inl ValidationError
            else (case find (\<lambda>c. passport c = pp) (crew st) of
                    Some crew_member \<Rightarrow> Inr (TrackerResult crew_member)
                  | None \<Rightarrow> Inl NotFound))
      else Inr TrackerForm)"


section \<open>Status pipeline (app.py, lines 282-305 and 397-451)\<close>

definition status_stages :: "string list" where
  "status_stages = [''Registered'', ''Screening'', ''Documents Verified'', ''Approved'']"

text \<open>\<open>CrewMember.query.get(crew_id)\<close> and \<open>StaffMember.query.get(staff_id)\<close>\<close>

definition get_crew :: "state \<Rightarrow> nat \<Rightarrow> crew_member option" where
  "get_crew st crew_id = find (\<lambda>c. cid c = crew_id) (crew st)"

definition get_staff :: "state \<Rightarrow> nat \<Rightarrow> staff_member option" where
  "get_staff st staff_id = find (\<lambda>s. s_id s = staff_id) (staff st)"

text \<open>
  The \<open>UPDATE ... WHERE id = crew_id\<close> that \<open>commit\<close> emits after an assignment to
  \<open>status\<close>: the row with that key gets the new status, and \<open>onupdate\<close> refreshes its
  \<open>updated_at\<close>. The unit of work emits no statement for an attribute whose value did not
  change.
\<close>

definition set_status :: "nat \<Rightarrow> int \<Rightarrow> nat \<Rightarrow> crew_member \<Rightarrow> crew_member" where
  "set_status crew_id s now c =
     (if cid c = crew_id \<and> status c \<noteq> s then c\<lparr>status := s, updated_at := now\<rparr> else c)"

definition set_staff_status :: "nat \<Rightarrow> int \<Rightarrow> nat \<Rightarrow> staff_member \<Rightarrow> staff_member" where
  "set_staff_status staff_id s now m =
     (if s_id m = staff_id \<and> s_status m \<noteq> s then m\<lparr>s_status := s, s_updated_at := now\<rparr>
      else m)"

datatype advance_report =
    StatusUpdated string string   \<comment> \<open>'Status updated to \<open>stage\<close> for \<open>name\<close>'\<close>
  | AlreadyFinal                   \<comment> \<open>'Crew member is already at final status.'\<close>

text \<open>
  \<open>update_status\<close>. The body runs inside \<open>try\<close>: the \<open>NotFound\<close> that \<open>get_or_404\<close>
  raises and the \<open>IndexError\<close> of \<open>status_stages[crew_member.status]\<close> are both caught
  by \<open>except Exception\<close>; the latter is raised after the commit, so the rollback undoes
  nothing.
\<close>

definition update_status ::
  "session \<Rightarrow> state \<Rightarrow> nat \<Rightarrow> nat \<Rightarrow> (error + advance_report) \<times> state" where
  "update_status sess st now crew_id =
     (if \<not> is_admin_logged_in sess then (Inl Unauthenticated, st)
      else
        (case get_crew st crew_id of
           None \<Rightarrow> (Inl UpdateFailed, st)
         | Some crew_member \<Rightarrow>
             if status crew_member < int (length status_stages) - 1 then
               (let st' = st\<lparr>crew := map (set_status crew_id (status crew_member + 1) now)
                                        (crew st)\<rparr>
                in case py_index status_stages (status crew_member + 1) of
                     None \<Rightarrow> (Inl UpdateFailed, st')
                   | Some stage \<Rightarrow> (Inr (StatusUpdated stage (name crew_member)), st'))
             else (Inr AlreadyFinal, st)))"

text \<open>
  \<open>approve_crew\<close>, \<open>reject_crew\<close>, \<open>approve_staff\<close>, \<open>reject_staff\<close>: on success the
  applicant's name, which the flashed message quotes.
\<close>

definition approve_crew :: "session \<Rightarrow> state \<Rightarrow> nat \<Rightarrow> nat \<Rightarrow> (error + string) \<times> state" where
  "approve_crew sess st now crew_id =
     (if \<not> is_admin_logged_in sess then (Inl Unauthenticated, st)
      else
        (case get_crew st crew_id of
           None \<Rightarrow> (Inl NotFound, st)
         | Some c \<Rightarrow> (Inr (name c), st\<lparr>crew := map (set_status crew_id 3 now) (crew st)\<rparr>)))"

definition reject_crew :: "session \<Rightarrow> state \<Rightarrow> nat \<Rightarrow> nat \<Rightarrow> (error + string) \<times> state" where
  "reject_crew sess st now crew_id =
     (if \<not> is_admin_logged_in sess then (Inl Unauthenticated, st)
      else
        (case get_crew st crew_id of
           None \<Rightarrow> (Inl NotFound, st)
         | Some c \<Rightarrow> (Inr (name c), st\<lparr>crew := map (set_status crew_id (- 1) now) (crew st)\<rparr>)))"

definition approve_staff :: "session \<Rightarrow> state \<Rightarrow> nat \<Rightarrow> nat \<Rightarrow> (error + string) \<times> state" where
  "approve_staff sess st now staff_id =
     (if \<not> is_admin_logged_in sess then (Inl Unauthenticated, st)
      else
        (case get_staff st staff_id of
           None \<Rightarrow> (Inl NotFound, st)
         | Some m \<Rightarrow>
             (Inr (full_name m),
              st\<lparr>staff := map (set_staff_status staff_id 3 now) (staff st)\<rparr>)))"

definition reject_staff :: "session \<Rightarrow> state \<Rightarrow> nat \<Rightarrow> nat \<Rightarrow> (error + string) \<times> state" where
  "reject_staff sess st now staff_id =
     (if \<not> is_admin_logged_in sess then (Inl Unauthenticated, st)
      else
        (case get_staff st staff_id of
           None \<Rightarrow> (Inl NotFound, st)
         | Some m \<Rightarrow>
             (Inr (full_name m),
              st\<lparr>staff := map (set_staff_status staff_id (- 1) now) (staff st)\<rparr>)))"

text \<open>The status stored for a crew id, and \<open>update_status\<close> called once per clock reading.\<close>

definition status_of :: "state \<Rightarrow> nat \<Rightarrow> int option" where
  "status_of st crew_id = map_option status (get_crew st crew_id)"

definition staff_status_of :: "state \<Rightarrow> nat \<Rightarrow> int option" where
  "staff_status_of st staff_id = map_option s_status (get_staff st staff_id)"

primrec advance_times :: "session \<Rightarrow> nat \<Rightarrow> nat list \<Rightarrow> state \<Rightarrow> state" where
  "advance_times sess crew_id [] st = st"
| "advance_times sess crew_id (t # ts) st =
     advance_times sess crew_id ts (snd (update_status sess st t crew_id))"

text \<open>
  The frame of a status operation on crew id \<open>i\<close>: between the two states the row
  with that id differs at most in \<open>status\<close> and \<open>updated_at\<close>, every other row is
  the same, and so are the other tables and the upload directory. Likewise for staff.
\<close>

definition crew_frame :: "nat \<Rightarrow> state \<Rightarrow> state \<Rightarrow> bool" where
  "crew_frame i st st' \<longleftrightarrow>
     staff st' = staff st \<and> admins st' = admins st \<and> fs st' = fs st \<and>
     list_all2
       (\<lambda>c c'. c' = c\<lparr>status := status c', updated_at := updated_at c'\<rparr>
                \<and> (cid c \<noteq> i \<longrightarrow> c' = c))
       (crew st) (crew st')"

definition staff_frame :: "nat \<Rightarrow> state \<Rightarrow> state \<Rightarrow> bool" where
  "staff_frame i st st' \<longleftrightarrow>
     crew st' = crew st \<and> admins st' = admins st \<and> fs st' = fs st \<and>
     list_all2
       (\<lambda>m m'. m' = m\<lparr>s_status := s_status m', s_updated_at := s_updated_at m'\<rparr>
                \<and> (s_id m \<noteq> i \<longrightarrow> m' = m))
       (staff st) (staff st')"


section \<open>Runs of the application\<close>

text \<open>
  At first start-up the tables are empty but for the seeded administrator (app.py,
  lines 62-77). A run is a sequence of requests that change the registry, each with the
  session it arrives in and the clock reading.
\<close>

definition init_state :: "lib \<Rightarrow> nat \<Rightarrow> state" where
  "init_state L now =
     \<lparr>crew = [], staff = [],
      admins = [\<lparr>a_id = 1, username = ''admin'',
                 password_hash = generate_password_hash L ''admin123'',
                 a_created_at = now\<rparr>],
      fs = Map.empty\<rparr>"

datatype action =
    Register request
  | RegisterStaff request
  | UpdateStatus nat
  | ApproveCrew nat
  | RejectCrew nat
  | ApproveStaff nat
  | RejectStaff nat

fun apply_action :: "lib \<Rightarrow> session \<Rightarrow> nat \<Rightarrow> action \<Rightarrow> state \<Rightarrow> state" where
  "apply_action L sess now (Register req) st = snd (register L req st now)"
| "apply_action L sess now (RegisterStaff req) st = snd (register_staff L req st now)"
| "apply_action L sess now (UpdateStatus i) st = snd (update_status sess st now i)"
| "apply_action L sess now (ApproveCrew i) st = snd (approve_crew sess st now i)"
| "apply_action L sess now (RejectCrew i) st = snd (reject_crew sess st now i)"
| "apply_action L sess now (ApproveStaff i) st = snd (approve_staff sess st now i)"
| "apply_action L sess now (RejectStaff i) st = snd (reject_staff sess st now i)"

fun run :: "lib \<Rightarrow> state \<Rightarrow> (session \<times> nat \<times> action) list \<Rightarrow> state" where
  "run L st [] = st"
| "run L st ((sess, now, a) # rest) = run L (apply_action L sess now a st) rest"


section \<open>Example data\<close>

text \<open>
  A fixed choice of the library functions for evaluating examples: the string methods
  are the ASCII ones (the examples are ASCII text), no date or number parses, \<open>secure_filename\<close> keeps a name that is already safe, the password hash is
  the password behind a marker, and the time stamp is constant.
\<close>

definition example_lib :: lib where
  "example_lib =
     \<lparr>str_strip = ascii_strip, str_upper = ascii_upper,
      strptime_date = (\<lambda>s. None), py_int = (\<lambda>s. None), secure_filename = (\<lambda>s. s),
      generate_password_hash = (\<lambda>p. ''hash:'' @ p),
      check_password_hash = (\<lambda>h p. h = ''hash:'' @ p),
      strftime = (\<lambda>t. ''20240101_000000'')\<rparr>"

definition admin_session :: session where
  "admin_session = \<lparr>admin_logged_in = Some True, admin_username = Some ''admin''\<rparr>"

definition anonymous_session :: session where
  "anonymous_session = \<lparr>admin_logged_in = None, admin_username = None\<rparr>"

definition crew_form :: "string \<Rightarrow> string \<Rightarrow> string \<Rightarrow> request" where
  "crew_form n r p =
     \<lparr>http_method = ''POST'',
      form = [''name'' \<mapsto> n, ''rank'' \<mapsto> r, ''passport'' \<mapsto> p],
      files = Map.empty\<rparr>"

definition passport_form :: "string \<Rightarrow> request" where
  "passport_form p = \<lparr>http_method = ''POST'', form = [''passport'' \<mapsto> p], files = Map.empty\<rparr>"

definition login_form :: "string \<Rightarrow> string \<Rightarrow> request" where
  "login_form u p =
     \<lparr>http_method = ''POST'', form = [''username'' \<mapsto> u, ''password'' \<mapsto> p], files = Map.empty\<rparr>"

definition jane :: crew_member where
  "jane =
     \<lparr>cid = 1, name = ''Jane Doe'', rank = ''Captain'', passport = ''AB123'',
      nationality = [], date_of_birth = None, years_experience = None,
      last_vessel_type = [], availability_date = None, passport_file = None,
      cdc_file = None, resume_file = None, photo_file = None, status = 0,
      created_at = 5, updated_at = 5\<rparr>"

definition sam :: staff_member where
  "sam =
     \<lparr>s_id = 1, full_name = ''Sam Roe'', email_or_whatsapp = ''sam@example.org'',
      position_applying = ''Clerk'', department = ''HR'', s_years_experience = None,
      current_employer = [], location = [], s_availability_date = None,
      s_resume_file = None, s_photo_file = None, s_status = 1,
      s_created_at = 6, s_updated_at = 6\<rparr>"

definition jane_state :: state where
  "jane_state = (init_state example_lib 0)\<lparr>crew := [jane], staff := [sam]\<rparr>"

definition rejected_state :: state where
  "rejected_state = jane_state\<lparr>crew := [jane\<lparr>status := - 1\<rparr>]\<rparr>"


section \<open>Status labels\<close>

text \<open>
  Claim C7. For every integer status the label lookup \<open>CrewMember.get_status_name\<close>
  returns a label and never indexes outside \<open>status_names\<close>: it is "Registered",
  "Screening", "Documents Verified", "Approved" for 0, 1, 2, 3 and "Unknown" for every
  other integer, among them -1 and 99.
\<close>

theorem get_status_name_total:
  "get_status_name c =
     (if status c = 0 then ''Registered''
      else if status c = 1 then ''Screening''
      else if status c = 2 then ''Documents Verified''
      else if status c = 3 then ''Approved''
      else ''Unknown'')"
proof -
  have "0 \<le> status c \<and> status c < 4 \<longleftrightarrow> status c \<in> {0, 1, 2, 3}" by auto
  then show ?thesis
    by (auto simp: get_status_name_def status_names_def)
qed


section \<open>The crew pipeline\<close>

lemma find_map_set_status:
  "find (\<lambda>c. cid c = i) (map (set_status i s now) cs) =
     map_option (set_status i s now) (find (\<lambda>c. cid c = i) cs)"
  by (induction cs) (simp_all add: set_status_def)

lemma find_map_set_status_other:
  "j \<noteq> i \<Longrightarrow>
   find (\<lambda>c. cid c = j) (map (set_status i s now) cs) = find (\<lambda>c. cid c = j) cs"
  by (induction cs) (simp_all add: set_status_def)

lemma find_cid: "find (\<lambda>c. cid c = i) cs = Some c \<Longrightarrow> cid c = i"
  by (induction cs) (simp_all split: if_splits)

lemma status_set_status: "cid c = i \<Longrightarrow> status (set_status i s now c) = s"
  by (simp add: set_status_def)

lemma status_of_set_status:
  "get_crew st i = Some c \<Longrightarrow>
   status_of (st\<lparr>crew := map (set_status i s now) (crew st)\<rparr>) i = Some s"
  by (simp add: status_of_def get_crew_def find_map_set_status)
     (metis find_cid status_set_status)

lemma get_crew_set_status:
  "get_crew (st\<lparr>crew := map (set_status i s now) (crew st)\<rparr>) i =
     map_option (set_status i s now) (get_crew st i)"
  by (simp add: get_crew_def find_map_set_status)

lemma update_status_state:
  "is_admin_logged_in sess \<Longrightarrow> get_crew st i = Some c \<Longrightarrow>
   snd (update_status sess st now i) =
     (if status c < 3 then st\<lparr>crew := map (set_status i (status c + 1) now) (crew st)\<rparr>
      else st)"
  by (simp add: update_status_def status_stages_def Let_def split: option.splits)

lemma update_status_status_of:
  "is_admin_logged_in sess \<Longrightarrow> get_crew st i = Some c \<Longrightarrow>
   status_of (snd (update_status sess st now i)) i =
     Some (if status c < 3 then status c + 1 else status c)"
  by (simp add: update_status_state status_of_set_status) (simp add: status_of_def)

lemma update_status_get_crew:
  "is_admin_logged_in sess \<Longrightarrow> get_crew st i = Some c \<Longrightarrow>
   \<exists>c'. get_crew (snd (update_status sess st now i)) i = Some c'
      \<and> status c' = (if status c < 3 then status c + 1 else status c)"
  using update_status_status_of [of sess st i c now]
  by (auto simp: status_of_def)

lemma advance_times_status:
  "is_admin_logged_in sess \<Longrightarrow> get_crew st i = Some c \<Longrightarrow>
   status_of (advance_times sess i ts st) i =
     Some (if status c < 3 then min (status c + int (length ts)) 3 else status c)"
proof (induction ts arbitrary: st c)
  case Nil
  then show ?case by (simp add: status_of_def)
next
  case (Cons t ts)
  from update_status_get_crew [OF Cons.prems, of t]
  obtain c' where c': "get_crew (snd (update_status sess st t i)) i = Some c'"
    and s': "status c' = (if status c < 3 then status c + 1 else status c)"
    by blast
  have "status_of (advance_times sess i (t # ts) st) i =
          Some (if status c' < 3 then min (status c' + int (length ts)) 3 else status c')"
    using Cons.IH [OF Cons.prems(1) c'] by simp
  also have "(if status c' < 3 then min (status c' + int (length ts)) 3 else status c') =
          (if status c < 3 then min (status c + int (length (t # ts))) 3 else status c)"
  proof -
    have "(if s' < 3 then min (s' + n) 3 else s') = (if s < 3 then min (s + (n + 1)) 3 else s)"
      if "s' = (if s < 3 then s + 1 else s)" and "0 \<le> n" for s s' n :: int
      using that by (auto simp: min_def)
    from this [OF s', of "int (length ts)"] show ?thesis by (simp add: add.commute)
  qed
  finally show ?case .
qed

lemma admin_session_logged_in: "is_admin_logged_in admin_session"
  by (simp add: is_admin_logged_in_def admin_session_def)

lemma get_crew_jane: "get_crew jane_state 1 = Some jane"
  by (simp add: jane_state_def get_crew_def jane_def)

lemma get_crew_rejected: "get_crew rejected_state 1 = Some (jane\<lparr>status := - 1\<rparr>)"
  by (simp add: rejected_state_def jane_state_def get_crew_def jane_def)

text \<open>
  Claim C3. The only guard of \<open>update_status\<close> is \<open>status < len(status_stages) - 1\<close>,
  that is \<open>status < 3\<close>: an authenticated call on an existing record increments every
  status below 3 and leaves every other status alone. The guard admits -1, so a
  Rejected record is moved to 0 (Registered).
\<close>

theorem update_status_guard:
  "is_admin_logged_in sess \<longrightarrow> get_crew st i = Some c \<longrightarrow>
     status_of (snd (update_status sess st now i)) i =
       Some (if status c < int (length status_stages) - 1 then status c + 1 else status c)
     \<and> (status c = - 1 \<longrightarrow> status_of (snd (update_status sess st now i)) i = Some 0)"
proof (intro impI)
  assume a: "is_admin_logged_in sess" and g: "get_crew st i = Some c"
  have bound: "int (length status_stages) - 1 = 3" by (simp add: status_stages_def)
  from update_status_status_of [OF a g, of now]
  have "status_of (snd (update_status sess st now i)) i =
          Some (if status c < 3 then status c + 1 else status c)" .
  then show "status_of (snd (update_status sess st now i)) i =
       Some (if status c < int (length status_stages) - 1 then status c + 1 else status c)
     \<and> (status c = - 1 \<longrightarrow> status_of (snd (update_status sess st now i)) i = Some 0)"
    by (simp add: bound)
qed

theorem update_status_guard_witness:
  "is_admin_logged_in admin_session
   \<and> get_crew rejected_state 1 = Some (jane\<lparr>status := - 1\<rparr>)
   \<and> status_of (snd (update_status admin_session rejected_state 9 1)) 1 = Some 0"
proof -
  have "status (jane\<lparr>status := - 1\<rparr>) = - 1" by simp
  with update_status_guard [of admin_session rejected_state 1 "jane\<lparr>status := - 1\<rparr>" 9]
    admin_session_logged_in get_crew_rejected
  show ?thesis by blast
qed

text \<open>
  Claim C2, as stated, fails: advancing a Rejected record does not leave its status at
  -1. In the registry that holds Jane Doe's record with status -1, an authenticated
  \<open>update_status\<close> stores status 0.
\<close>

theorem update_status_rejected_counterexample:
  "status_of rejected_state 1 = Some (- 1)
   \<and> status_of (snd (update_status admin_session rejected_state 9 1)) 1 = Some 0"
  by (simp add: status_of_def update_status_def is_admin_logged_in_def admin_session_def
      rejected_state_def jane_state_def get_crew_def jane_def status_stages_def
      py_index_def set_status_def)

text \<open>
  Claim C2, amended. For every crew record whose status is Rejected (-1), an
  authenticated \<open>update_status\<close> is neither a no-op nor an error: it reports "Status
  updated to Registered", stores status 0 for the record and so changes its status.
\<close>

theorem update_status_rejected:
  assumes "is_admin_logged_in sess" and "get_crew st i = Some c" and "status c = - 1"
  shows "update_status sess st now i =
           (Inr (StatusUpdated ''Registered'' (name c)),
            st\<lparr>crew := map (set_status i 0 now) (crew st)\<rparr>)
       \<and> status_of (snd (update_status sess st now i)) i = Some 0
       \<and> status_of (snd (update_status sess st now i)) i \<noteq> status_of st i"
  using assms
  by (simp add: update_status_status_of)
     (simp add: update_status_def status_stages_def py_index_def status_of_def)

theorem update_status_rejected_witness:
  "update_status admin_session rejected_state 9 1 =
     (Inr (StatusUpdated ''Registered'' ''Jane Doe''),
      rejected_state\<lparr>crew := [jane\<lparr>status := 0, updated_at := 9\<rparr>]\<rparr>)"
proof -
  have "status (jane\<lparr>status := - 1\<rparr>) = - 1" by simp
  from update_status_rejected [OF admin_session_logged_in get_crew_rejected this, of 9]
  have "update_status admin_session rejected_state 9 1 =
          (Inr (StatusUpdated ''Registered'' (name (jane\<lparr>status := - 1\<rparr>))),
           rejected_state\<lparr>crew := map (set_status 1 0 9) (crew rejected_state)\<rparr>)"
    by blast
  moreover have "name (jane\<lparr>status := - 1\<rparr>) = ''Jane Doe''"
    by (simp add: jane_def)
  moreover have "map (set_status 1 0 9) (crew rejected_state) =
                   [jane\<lparr>status := 0, updated_at := 9\<rparr>]"
    by (simp add: rejected_state_def jane_state_def set_status_def jane_def)
  ultimately show ?thesis by simp
qed

text \<open>
  Claim C4. For a crew record with status s in {0, 1, 2} an authenticated
  \<open>update_status\<close> stores s + 1; at status 3 it changes nothing and reports "already
  final" without error. Advancing a record from 0 any number of times gives
  0, 1, 2, 3, 3, ..., and a status that starts at most 3 never exceeds 3.
\<close>

theorem update_status_forward:
  assumes "is_admin_logged_in sess" and "get_crew st i = Some c"
  shows "(status c \<in> {0, 1, 2} \<longrightarrow>
            status_of (snd (update_status sess st now i)) i = Some (status c + 1))
       \<and> (status c = 3 \<longrightarrow> update_status sess st now i = (Inr AlreadyFinal, st))
       \<and> (status c = 0 \<longrightarrow>
            status_of (advance_times sess i ts st) i = Some (min (int (length ts)) 3)
          \<and> map (\<lambda>n. status_of (advance_times sess i (replicate n now) st) i) [0, 1, 2, 3, 4, 5]
              = [Some 0, Some 1, Some 2, Some 3, Some 3, Some 3])
       \<and> (status c \<le> 3 \<longrightarrow> (\<exists>s. status_of (advance_times sess i ts st) i = Some s \<and> s \<le> 3))"
  using assms
  apply (intro conjI impI)
  subgoal by (auto simp: update_status_status_of)
  subgoal by (simp add: update_status_def status_stages_def)
  subgoal by (simp add: advance_times_status)
  subgoal by (simp add: advance_times_status)
  subgoal by (simp add: advance_times_status)
  done

theorem update_status_forward_witness:
  "status_of (advance_times admin_session 1 [9, 10, 11] jane_state) 1 = Some 3
   \<and> status_of (advance_times admin_session 1 [9, 10, 11, 12] jane_state) 1 = Some 3
   \<and> status_of (snd (update_status admin_session jane_state 9 1)) 1 = Some 1"
proof -
  have s0: "status jane = 0" by (simp add: jane_def)
  from update_status_forward [OF admin_session_logged_in get_crew_jane, of 9 "[9, 10, 11]"] s0
  have a: "status_of (advance_times admin_session 1 [9, 10, 11] jane_state) 1 = Some 3"
    by simp
  from update_status_forward [OF admin_session_logged_in get_crew_jane, of 9 "[9, 10, 11, 12]"] s0
  have b: "status_of (advance_times admin_session 1 [9, 10, 11, 12] jane_state) 1 = Some 3"
    by simp
  from update_status_forward [OF admin_session_logged_in get_crew_jane, of 9 "[]"] s0
  have c: "status_of (snd (update_status admin_session jane_state 9 1)) 1 = Some 1"
    by simp
  from a b c show ?thesis by simp
qed

lemma approve_crew_state:
  "is_admin_logged_in sess \<Longrightarrow> get_crew st i = Some c \<Longrightarrow>
   approve_crew sess st now i =
     (Inr (name c), st\<lparr>crew := map (set_status i 3 now) (crew st)\<rparr>)"
  by (simp add: approve_crew_def)

lemma reject_crew_state:
  "is_admin_logged_in sess \<Longrightarrow> get_crew st i = Some c \<Longrightarrow>
   reject_crew sess st now i =
     (Inr (name c), st\<lparr>crew := map (set_status i (- 1) now) (crew st)\<rparr>)"
  by (simp add: reject_crew_def)

text \<open>
  Claim C5. For a crew record in any status, an authenticated \<open>reject_crew\<close> followed
  by \<open>approve_crew\<close> leaves status 3: \<open>approve_crew\<close> stores 3 whatever the status
  was, -1 included, and \<open>reject_crew\<close> stores -1 whatever the status was, 3 included.
\<close>

theorem reject_then_approve:
  assumes "is_admin_logged_in sess" and "get_crew st i = Some c"
  shows "status_of (snd (approve_crew sess (snd (reject_crew sess st t1 i)) t2 i)) i = Some 3
       \<and> status_of (snd (approve_crew sess st t1 i)) i = Some 3
       \<and> status_of (snd (reject_crew sess st t1 i)) i = Some (- 1)"
proof -
  let ?st1 = "st\<lparr>crew := map (set_status i (- 1) t1) (crew st)\<rparr>"
  have r: "snd (reject_crew sess st t1 i) = ?st1"
    using assms by (simp add: reject_crew_state)
  have g: "get_crew ?st1 i = Some (set_status i (- 1) t1 c)"
    using assms(2) by (simp add: get_crew_set_status)
  have "status_of (snd (approve_crew sess ?st1 t2 i)) i = Some 3"
    using approve_crew_state [OF assms(1) g, of t2] status_of_set_status [OF g, of 3 t2]
    by simp
  moreover have "status_of (snd (approve_crew sess st t1 i)) i = Some 3"
    using approve_crew_state [OF assms, of t1] status_of_set_status [OF assms(2), of 3 t1]
    by simp
  moreover have "status_of (snd (reject_crew sess st t1 i)) i = Some (- 1)"
    using r status_of_set_status [OF assms(2), of "- 1" t1] by simp
  ultimately show ?thesis using r by simp
qed

theorem reject_then_approve_witness:
  "status_of (snd (approve_crew admin_session
                     (snd (reject_crew admin_session jane_state 8 1)) 9 1)) 1 = Some 3
   \<and> status_of (snd (reject_crew admin_session jane_state 8 1)) 1 = Some (- 1)"
  using reject_then_approve [OF admin_session_logged_in get_crew_jane, of 8 9]
  by simp

lemma list_all2_map_same:
  "list_all2 P xs (map f xs) \<longleftrightarrow> (\<forall>x \<in> set xs. P x (f x))"
  by (induction xs) simp_all

lemma crew_frame_set_status:
  "crew_frame i st (st\<lparr>crew := map (set_status i s now) (crew st)\<rparr>)"
  by (simp add: crew_frame_def list_all2_map_same set_status_def)

lemma crew_frame_refl: "crew_frame i st st"
  by (simp add: crew_frame_def list_all2_same)

lemma staff_frame_set_status:
  "staff_frame i st (st\<lparr>staff := map (set_staff_status i s now) (staff st)\<rparr>)"
  by (simp add: staff_frame_def list_all2_map_same set_staff_status_def)

lemma staff_frame_refl: "staff_frame i st st"
  by (simp add: staff_frame_def list_all2_same)

lemma update_status_frame: "crew_frame i st (snd (update_status sess st now i))"
  by (simp add: update_status_def Let_def crew_frame_set_status crew_frame_refl
      split: option.split)

lemma approve_crew_frame: "crew_frame i st (snd (approve_crew sess st now i))"
  by (simp add: approve_crew_def crew_frame_set_status crew_frame_refl split: option.split)

lemma reject_crew_frame: "crew_frame i st (snd (reject_crew sess st now i))"
  by (simp add: reject_crew_def crew_frame_set_status crew_frame_refl split: option.split)

lemma approve_staff_frame: "staff_frame i st (snd (approve_staff sess st now i))"
  by (simp add: approve_staff_def staff_frame_set_status staff_frame_refl split: option.split)

lemma reject_staff_frame: "staff_frame i st (snd (reject_staff sess st now i))"
  by (simp add: reject_staff_def staff_frame_set_status staff_frame_refl split: option.split)

text \<open>
  Claim C10. Each of \<open>update_status\<close>, \<open>approve_crew\<close>, \<open>reject_crew\<close>,
  \<open>approve_staff\<close> and \<open>reject_staff\<close> changes at most the \<open>status\<close> and
  \<open>updated_at\<close> of the record with the given id: its other fields, every other
  record, the other tables and the stored files are unchanged.
\<close>

theorem status_operations_frame:
  "crew_frame i st (snd (update_status sess st now i))
   \<and> crew_frame i st (snd (approve_crew sess st now i))
   \<and> crew_frame i st (snd (reject_crew sess st now i))
   \<and> staff_frame i st (snd (approve_staff sess st now i))
   \<and> staff_frame i st (snd (reject_staff sess st now i))"
  by (simp add: update_status_frame approve_crew_frame reject_crew_frame
      approve_staff_frame reject_staff_frame)

theorem status_operations_frame_witness:
  "crew_frame 1 jane_state (snd (approve_crew admin_session jane_state 9 1))
   \<and> crew (snd (approve_crew admin_session jane_state 9 1)) = [jane\<lparr>status := 3, updated_at := 9\<rparr>]
   \<and> staff_frame 1 jane_state (snd (reject_staff admin_session jane_state 9 1))
   \<and> staff (snd (reject_staff admin_session jane_state 9 1)) = [sam\<lparr>s_status := - 1, s_updated_at := 9\<rparr>]"
  using status_operations_frame [of 1 jane_state admin_session 9]
  by (simp add: approve_crew_def reject_staff_def is_admin_logged_in_def admin_session_def
      jane_state_def get_crew_def get_staff_def jane_def sam_def set_status_def
      set_staff_status_def)


section \<open>The file store\<close>












section \<open>The session gate\<close>

lemma admin_login_failed_session:
  "fst (admin_login L req st sess) = Inl e \<Longrightarrow> snd (admin_login L req st sess) = sess"
  by (auto simp: admin_login_def Let_def split: if_splits option.splits)

lemma admin_login_changes_session:
  assumes "snd (admin_login L req st sess) \<noteq> sess"
  shows "http_method req = ''POST'' \<and>
         (\<exists>a. find (\<lambda>a. username a = str_strip L (form_get req ''username'')) (admins st) = Some a
            \<and> check_password_hash L (password_hash a) (form_get req ''password''))
         \<and> fst (admin_login L req st sess) = Inr ToDashboard
         \<and> is_admin_logged_in (snd (admin_login L req st sess))"
  using assms
  by (auto simp: admin_login_def Let_def is_admin_logged_in_def split: if_splits option.splits)

lemma admin_login_invalid:
  assumes "http_method req = ''POST''"
    and "str_strip L (form_get req ''username'') \<noteq> []" and "form_get req ''password'' \<noteq> []"
    and "find (\<lambda>a. username a = str_strip L (form_get req ''username'')) (admins st) = Some a"
    and "\<not> check_password_hash L (password_hash a) (form_get req ''password'')"
  shows "admin_login L req st sess = (Inl InvalidCredentials, sess)"
  using assms by (simp add: admin_login_def)

lemma admin_login_empty:
  assumes "http_method req = ''POST''"
    and "str_strip L (form_get req ''username'') = [] \<or> form_get req ''password'' = []"
  shows "admin_login L req st sess = (Inl ValidationError, sess)"
  using assms by (auto simp: admin_login_def)

lemma find_admin_jane_state:
  "find (\<lambda>a. username a = ''admin'') (admins jane_state)
     = Some \<lparr>a_id = 1, username = ''admin'', password_hash = ''hash:admin123'', a_created_at = 0\<rparr>"
  by (simp add: jane_state_def init_state_def example_lib_def)

lemma strip_admin: "str_strip example_lib ''admin'' = ''admin''"
  by (simp add: example_lib_def ascii_strip_def ascii_isspace_def)

lemma login_form_fields:
  "http_method (login_form u p) = ''POST''"
  "form_get (login_form u p) ''username'' = u"
  "form_get (login_form u p) ''password'' = p"
  by (simp_all add: login_form_def form_get_def)

text \<open>
  Claim C9, as stated, fails: a login attempt with an existing username and a
  non-matching password does not always fail with \<open>InvalidCredentials\<close>. The seeded
  administrator exists, the empty password does not match its hash, and the attempt is
  refused with 'Please enter both username and password.' before the directory is
  consulted.
\<close>

theorem admin_login_wrong_password_counterexample:
  "find (\<lambda>a. username a = ''admin'') (admins jane_state)
     = Some \<lparr>a_id = 1, username = ''admin'', password_hash = ''hash:admin123'', a_created_at = 0\<rparr>
   \<and> \<not> check_password_hash example_lib ''hash:admin123'' []
   \<and> fst (admin_login example_lib (login_form ''admin'' []) jane_state anonymous_session)
       = Inl ValidationError
   \<and> fst (admin_login example_lib (login_form ''admin'' []) jane_state anonymous_session)
       \<noteq> Inl InvalidCredentials"
  by (simp add: find_admin_jane_state admin_login_def login_form_fields example_lib_def
      ascii_strip_def ascii_isspace_def)

text \<open>
  Claim C9, amended. A POST to \<open>admin_login\<close> with an existing username (after
  trimming) and a password that fails the hash check fails with \<open>InvalidCredentials\<close>
  when username and password are both non-empty, and with \<open>ValidationError\<close> when one
  of them is empty; either way the session is unchanged, so the authenticated flag is
  not set. Whenever \<open>admin_login\<close> changes a session, the hash check of an existing
  administrator has succeeded.
\<close>

theorem admin_login_wrong_password:
  assumes "http_method req = ''POST''"
    and "find (\<lambda>a. username a = str_strip L (form_get req ''username'')) (admins st) = Some a"
    and "\<not> check_password_hash L (password_hash a) (form_get req ''password'')"
  shows "(str_strip L (form_get req ''username'') \<noteq> [] \<and> form_get req ''password'' \<noteq> []
            \<longrightarrow> admin_login L req st sess = (Inl InvalidCredentials, sess))
       \<and> (str_strip L (form_get req ''username'') = [] \<or> form_get req ''password'' = []
            \<longrightarrow> admin_login L req st sess = (Inl ValidationError, sess))
       \<and> (\<exists>e. fst (admin_login L req st sess) = Inl e)
       \<and> snd (admin_login L req st sess) = sess
       \<and> is_admin_logged_in (snd (admin_login L req st sess)) = is_admin_logged_in sess
       \<and> (\<forall>req' st' sess'. snd (admin_login L req' st' sess') \<noteq> sess' \<longrightarrow>
             (\<exists>a'. find (\<lambda>a. username a = str_strip L (form_get req' ''username'')) (admins st')
                      = Some a'
                  \<and> check_password_hash L (password_hash a') (form_get req' ''password'')))"
proof -
  have inv: "str_strip L (form_get req ''username'') \<noteq> [] \<and> form_get req ''password'' \<noteq> []
            \<longrightarrow> admin_login L req st sess = (Inl InvalidCredentials, sess)"
    using admin_login_invalid [OF assms(1) _ _ assms(2,3)] by blast
  have emp: "str_strip L (form_get req ''username'') = [] \<or> form_get req ''password'' = []
            \<longrightarrow> admin_login L req st sess = (Inl ValidationError, sess)"
    using admin_login_empty [OF assms(1)] by blast
  have fails: "\<exists>e. fst (admin_login L req st sess) = Inl e"
    using inv emp by (cases "str_strip L (form_get req ''username'') = [] \<or> form_get req ''password'' = []") auto
  then have same: "snd (admin_login L req st sess) = sess"
    using admin_login_failed_session by blast
  have only: "\<forall>req' st' sess'. snd (admin_login L req' st' sess') \<noteq> sess' \<longrightarrow>
             (\<exists>a'. find (\<lambda>a. username a = str_strip L (form_get req' ''username'')) (admins st')
                      = Some a'
                  \<and> check_password_hash L (password_hash a') (form_get req' ''password''))"
    using admin_login_changes_session by blast
  from inv emp fails same only show ?thesis by simp
qed

theorem admin_login_wrong_password_witness:
  "admin_login example_lib (login_form ''admin'' ''wrong'') jane_state anonymous_session
     = (Inl InvalidCredentials, anonymous_session)
   \<and> \<not> is_admin_logged_in anonymous_session"
proof -
  let ?a = "\<lparr>a_id = 1, username = ''admin'', password_hash = ''hash:admin123'', a_created_at = 0\<rparr>"
  have f: "find (\<lambda>a. username a = str_strip example_lib (form_get (login_form ''admin'' ''wrong'') ''username''))
             (admins jane_state) = Some ?a"
    by (simp add: login_form_fields strip_admin find_admin_jane_state)
  have c: "\<not> check_password_hash example_lib (password_hash ?a)
               (form_get (login_form ''admin'' ''wrong'') ''password'')"
    by (simp add: login_form_fields example_lib_def)
  have n: "str_strip example_lib (form_get (login_form ''admin'' ''wrong'') ''username'') \<noteq> []
           \<and> form_get (login_form ''admin'' ''wrong'') ''password'' \<noteq> []"
    by (simp add: login_form_fields strip_admin)
  from admin_login_wrong_password [OF login_form_fields(1) f c, of anonymous_session] n
  have "admin_login example_lib (login_form ''admin'' ''wrong'') jane_state anonymous_session
     = (Inl InvalidCredentials, anonymous_session)" by blast
  moreover have "\<not> is_admin_logged_in anonymous_session"
    by (simp add: is_admin_logged_in_def anonymous_session_def)
  ultimately show ?thesis by simp
qed


section \<open>Case and whitespace\<close>

lemma upper_lower_char: "upper_char (lower_char c) = upper_char c"
proof (cases "c \<in> set ''ABCDEFGHIJKLMNOPQRSTUVWXYZ''")
  case True
  then show ?thesis
    by (auto simp: lower_char_def upper_char_def)
next
  case False
  then have "lower_char c = c" by (simp add: lower_char_def)
  then show ?thesis by simp
qed

lemma isspace_lower_char: "ascii_isspace (lower_char c) = ascii_isspace c"
proof (cases "c \<in> set ''ABCDEFGHIJKLMNOPQRSTUVWXYZ''")
  case True
  then show ?thesis
    by (auto simp: lower_char_def ascii_isspace_def)
next
  case False
  then have "lower_char c = c" by (simp add: lower_char_def)
  then show ?thesis by simp
qed

lemma dropWhile_map_pres:
  "(\<And>c. P (f c) = P c) \<Longrightarrow> dropWhile P (map f s) = map f (dropWhile P s)"
  by (induction s) simp_all

lemma strip_map_pres:
  assumes "\<And>c. ascii_isspace (f c) = ascii_isspace c"
  shows "ascii_strip (map f s) = map f (ascii_strip s)"
proof -
  have d: "dropWhile ascii_isspace (map f xs) = map f (dropWhile ascii_isspace xs)" for xs
    using assms by (rule dropWhile_map_pres)
  show ?thesis by (simp add: ascii_strip_def d rev_map)
qed

lemma upper_lower: "ascii_upper (lower s) = ascii_upper s"
  by (simp add: ascii_upper_def lower_def upper_lower_char)

lemma lower_eq_upper_strip:
  assumes "lower p = lower q"
  shows "ascii_upper (ascii_strip p) = ascii_upper (ascii_strip q)"
proof -
  have "lower (ascii_strip p) = ascii_strip (lower p)"
    by (simp add: lower_def strip_map_pres isspace_lower_char)
  also have "\<dots> = ascii_strip (lower q)" using assms by simp
  also have "\<dots> = lower (ascii_strip q)"
    by (simp add: lower_def strip_map_pres isspace_lower_char)
  finally have "ascii_upper (lower (ascii_strip p)) = ascii_upper (lower (ascii_strip q))"
    by simp
  then show ?thesis by (simp add: upper_lower)
qed

lemma is_ascii_strip: "is_ascii s \<Longrightarrow> is_ascii (ascii_strip s)"
proof -
  assume a: "is_ascii s"
  have "set (ascii_strip s) \<subseteq> set s"
    by (auto simp: ascii_strip_def dest!: set_dropWhileD)
  with a show ?thesis by (auto simp: is_ascii_def list_all_iff)
qed

lemma ascii_lib_normal:
  assumes "ascii_lib L" and "is_ascii s"
  shows "str_upper L (str_strip L s) = ascii_upper (ascii_strip s)"
    and "str_strip L s = ascii_strip s"
proof -
  from assms show s: "str_strip L s = ascii_strip s" by (simp add: ascii_lib_def)
  from assms(1) is_ascii_strip [OF assms(2)]
  have "str_upper L (ascii_strip s) = ascii_upper (ascii_strip s)"
    by (simp add: ascii_lib_def)
  with s show "str_upper L (str_strip L s) = ascii_upper (ascii_strip s)" by simp
qed

lemma case_variant_upper_strip:
  assumes "ascii_lib L" and "ascii_case_variant p q"
  shows "str_upper L (str_strip L p) = str_upper L (str_strip L q)"
proof -
  from assms(2) have p: "is_ascii p" and q: "is_ascii q" and l: "lower p = lower q"
    by (simp_all add: ascii_case_variant_def)
  from ascii_lib_normal(1) [OF assms(1) p] ascii_lib_normal(1) [OF assms(1) q]
    lower_eq_upper_strip [OF l]
  show ?thesis by simp
qed

lemma ascii_lib_example: "ascii_lib example_lib"
  by (simp add: ascii_lib_def example_lib_def)


section \<open>The applicant registry\<close>

lemma find_passport_None:
  "find (\<lambda>c. passport c = p) cs = None \<longleftrightarrow> p \<notin> set (map passport cs)"
  by (induction cs) auto

lemma register_outcome:
  "(crew (snd (register L req st now)) = crew st \<and> (\<exists>e. fst (register L req st now) = Inl e
      \<or> fst (register L req st now) = Inr RegisterForm))
   \<or> (\<exists>c. fst (register L req st now) = Inr (ThankYou c)
          \<and> crew (snd (register L req st now)) = crew st @ [c]
          \<and> http_method req = ''POST''
          \<and> passport c = str_upper L (str_strip L (form_get req ''passport''))
          \<and> str_strip L (form_get req ''passport'') \<noteq> []
          \<and> passport c \<notin> set (map passport (crew st))
          \<and> name c = str_strip L (form_get req ''name'')
          \<and> rank c = str_strip L (form_get req ''rank'')
          \<and> status c = 0)"
  by (auto simp: register_def Let_def insert_crew_def find_passport_None
      split: option.splits prod.splits)

lemma register_duplicate:
  assumes "http_method req = ''POST''"
    and "str_strip L (form_get req ''name'') \<noteq> []"
    and "str_strip L (form_get req ''rank'') \<noteq> []"
    and "str_strip L (form_get req ''passport'') \<noteq> []"
    and "str_upper L (str_strip L (form_get req ''passport'')) \<in> set (map passport (crew st))"
  shows "register L req st now = (Inl DuplicateKey, st)"
proof -
  have "find (\<lambda>c. passport c = str_upper L (str_strip L (form_get req ''passport'')))
          (crew st) \<noteq> None"
    using assms(5) by (simp add: find_passport_None)
  with assms(1-4) show ?thesis by (simp add: register_def Let_def)
qed

lemma register_missing_field:
  assumes "http_method req = ''POST''"
    and "str_strip L (form_get req ''name'') = [] \<or> str_strip L (form_get req ''rank'') = []
         \<or> str_strip L (form_get req ''passport'') = []"
  shows "register L req st now = (Inl ValidationError, st)"
  using assms by (auto simp: register_def Let_def)

lemma register_distinct:
  assumes "distinct (map passport (crew st))"
  shows "distinct (map passport (crew (snd (register L req st now))))"
  using register_outcome [of L req st now] assms by auto

lemma register_no_integrity_error: "fst (register L req st now) \<noteq> Inl IntegrityError"
  by (auto simp: register_def Let_def insert_crew_def find_passport_None
      split: option.splits prod.splits)

lemma passport_set_status: "passport (set_status i s now c) = passport c"
  by (simp add: set_status_def)

lemma register_staff_crew: "crew (snd (register_staff L req st now)) = crew st"
  by (auto simp: register_staff_def Let_def split: option.splits prod.splits)

lemma update_status_passports:
  "map passport (crew (snd (update_status sess st now i))) = map passport (crew st)"
  by (simp add: update_status_def Let_def passport_set_status split: option.split)

lemma approve_crew_passports:
  "map passport (crew (snd (approve_crew sess st now i))) = map passport (crew st)"
  by (simp add: approve_crew_def passport_set_status split: option.split)

lemma reject_crew_passports:
  "map passport (crew (snd (reject_crew sess st now i))) = map passport (crew st)"
  by (simp add: reject_crew_def passport_set_status split: option.split)

lemma approve_staff_crew: "crew (snd (approve_staff sess st now i)) = crew st"
  by (simp add: approve_staff_def split: option.split)

lemma reject_staff_crew: "crew (snd (reject_staff sess st now i)) = crew st"
  by (simp add: reject_staff_def split: option.split)

lemma apply_action_distinct:
  "distinct (map passport (crew st)) \<Longrightarrow>
   distinct (map passport (crew (apply_action L sess now a st)))"
  by (cases a)
     (simp_all add: register_distinct register_staff_crew update_status_passports
        approve_crew_passports reject_crew_passports approve_staff_crew reject_staff_crew)

lemma run_distinct:
  "distinct (map passport (crew st)) \<Longrightarrow> distinct (map passport (crew (run L st reqs)))"
proof (induction reqs arbitrary: st)
  case Nil
  then show ?case by simp
next
  case (Cons r reqs)
  obtain sess now a where r: "r = (sess, now, a)" by (cases r) auto
  from Cons.prems have "distinct (map passport (crew (apply_action L sess now a st)))"
    by (rule apply_action_distinct)
  from Cons.IH [OF this] show ?case by (simp add: r)
qed

lemma crew_form_fields:
  "http_method (crew_form n r p) = ''POST''"
  "form_get (crew_form n r p) ''name'' = n"
  "form_get (crew_form n r p) ''rank'' = r"
  "form_get (crew_form n r p) ''passport'' = p"
  "form_get (crew_form n r p) ''nationality'' = []"
  "form_get (crew_form n r p) ''date_of_birth'' = []"
  "form_get (crew_form n r p) ''years_experience'' = []"
  "form_get (crew_form n r p) ''last_vessel_type'' = []"
  "form_get (crew_form n r p) ''availability_date'' = []"
  "files (crew_form n r p) k = None"
  by (simp_all add: crew_form_def form_get_def)

lemma strip_examples:
  "str_strip example_lib ''Jane Doe'' = ''Jane Doe''"
  "str_strip example_lib ''Captain'' = ''Captain''"
  "str_strip example_lib ''ab123'' = ''ab123''"
  "str_strip example_lib ''Ab123'' = ''Ab123''"
  "str_strip example_lib ''AB123'' = ''AB123''"
  "str_strip example_lib '' ab123'' = ''ab123''"
  "str_strip example_lib [] = []"
  by (simp_all add: example_lib_def ascii_strip_def ascii_isspace_def)

lemma upper_examples:
  "str_upper example_lib ''ab123'' = ''AB123''"
  "str_upper example_lib ''Ab123'' = ''AB123''"
  "str_upper example_lib ''AB123'' = ''AB123''"
  "str_upper example_lib '' ab123'' = '' AB123''"
  by (simp_all add: example_lib_def ascii_upper_def upper_char_def)

lemma case_variant_examples:
  "ascii_case_variant ''ab123'' ''Ab123''" "ascii_case_variant ''Ab123'' ''ab123''"
  by (simp_all add: ascii_case_variant_def is_ascii_def lower_def lower_char_def)

lemma crew_jane_state: "crew jane_state = [jane]"
  by (simp add: jane_state_def)

text \<open>
  Claim C1, as stated, fails: a crew record with the upper-cased submitted passport
  exists, yet the registration does not fail with \<open>DuplicateKey\<close>. The form has an
  empty name, and the required-field check, which comes first, refuses it with
  \<open>ValidationError\<close>.
\<close>

theorem register_duplicate_passport_counterexample:
  "jane \<in> set (crew jane_state) \<and> passport jane = str_upper example_lib ''ab123''
   \<and> register example_lib (crew_form [] ''Captain'' ''ab123'') jane_state 7
       = (Inl ValidationError, jane_state)
   \<and> fst (register example_lib (crew_form [] ''Captain'' ''ab123'') jane_state 7)
       \<noteq> Inl DuplicateKey"
  by (simp add: crew_jane_state jane_def upper_examples register_def crew_form_fields
      strip_examples)

text \<open>
  Claim C1, amended. In every registry reached from the initial one the stored
  passports of the crew records are pairwise different, and \<open>register\<close> keeps them so.
  A POST to \<open>register\<close> whose name, rank and passport are non-empty after trimming
  fails with \<open>DuplicateKey\<close> and leaves the state unchanged whenever some crew record
  stores the trimmed, upper-cased submitted passport. For ASCII passports, where the
  string methods are the ASCII ones, that is so for every case variant of a passport
  whose trimmed, upper-cased form is stored. When a required field is empty after
  trimming the registration fails with \<open>ValidationError\<close> instead, and no failing
  registration adds a crew record.
\<close>

theorem register_duplicate_passport:
  "distinct (map passport (crew (run L (init_state L t0) reqs)))
   \<and> (distinct (map passport (crew st))
        \<longrightarrow> distinct (map passport (crew (snd (register L req st now)))))
   \<and> (http_method req = ''POST''
        \<and> str_strip L (form_get req ''name'') \<noteq> []
        \<and> str_strip L (form_get req ''rank'') \<noteq> []
        \<and> str_strip L (form_get req ''passport'') \<noteq> []
        \<and> (\<exists>c \<in> set (crew st).
               passport c = str_upper L (str_strip L (form_get req ''passport'')))
        \<longrightarrow> register L req st now = (Inl DuplicateKey, st))
   \<and> (ascii_lib L \<and> http_method req = ''POST''
        \<and> str_strip L (form_get req ''name'') \<noteq> []
        \<and> str_strip L (form_get req ''rank'') \<noteq> []
        \<and> str_strip L (form_get req ''passport'') \<noteq> []
        \<and> (\<exists>c \<in> set (crew st). \<exists>q. passport c = str_upper L (str_strip L q)
               \<and> ascii_case_variant q (form_get req ''passport''))
        \<longrightarrow> register L req st now = (Inl DuplicateKey, st))
   \<and> (http_method req = ''POST''
        \<and> (str_strip L (form_get req ''name'') = []
            \<or> str_strip L (form_get req ''rank'') = []
            \<or> str_strip L (form_get req ''passport'') = [])
        \<longrightarrow> register L req st now = (Inl ValidationError, st))
   \<and> (\<forall>e. fst (register L req st now) = Inl e
        \<longrightarrow> crew (snd (register L req st now)) = crew st)"
proof (intro conjI impI allI)
  show "distinct (map passport (crew (run L (init_state L t0) reqs)))"
    by (rule run_distinct) (simp add: init_state_def)
next
  assume "distinct (map passport (crew st))"
  then show "distinct (map passport (crew (snd (register L req st now))))"
    by (rule register_distinct)
next
  assume a: "http_method req = ''POST''
        \<and> str_strip L (form_get req ''name'') \<noteq> []
        \<and> str_strip L (form_get req ''rank'') \<noteq> []
        \<and> str_strip L (form_get req ''passport'') \<noteq> []
        \<and> (\<exists>c \<in> set (crew st).
               passport c = str_upper L (str_strip L (form_get req ''passport'')))"
  then obtain c where "c \<in> set (crew st)"
    and "passport c = str_upper L (str_strip L (form_get req ''passport''))" by blast
  then have "str_upper L (str_strip L (form_get req ''passport''))
               \<in> set (map passport (crew st))"
    by force
  with a show "register L req st now = (Inl DuplicateKey, st)"
    by (simp add: register_duplicate)
next
  assume a: "ascii_lib L \<and> http_method req = ''POST''
        \<and> str_strip L (form_get req ''name'') \<noteq> []
        \<and> str_strip L (form_get req ''rank'') \<noteq> []
        \<and> str_strip L (form_get req ''passport'') \<noteq> []
        \<and> (\<exists>c \<in> set (crew st). \<exists>q. passport c = str_upper L (str_strip L q)
               \<and> ascii_case_variant q (form_get req ''passport''))"
  then obtain c q where c: "c \<in> set (crew st)"
    and p: "passport c = str_upper L (str_strip L q)"
    and v: "ascii_case_variant q (form_get req ''passport'')" by blast
  from a have "ascii_lib L" by simp
  from p case_variant_upper_strip [OF this v]
  have "passport c = str_upper L (str_strip L (form_get req ''passport''))" by simp
  with c have "str_upper L (str_strip L (form_get req ''passport''))
                 \<in> set (map passport (crew st))"
    by force
  with a show "register L req st now = (Inl DuplicateKey, st)"
    by (simp add: register_duplicate)
next
  assume "http_method req = ''POST''
        \<and> (str_strip L (form_get req ''name'') = []
            \<or> str_strip L (form_get req ''rank'') = []
            \<or> str_strip L (form_get req ''passport'') = [])"
  then show "register L req st now = (Inl ValidationError, st)"
    by (simp add: register_missing_field)
next
  fix e
  assume "fst (register L req st now) = Inl e"
  with register_outcome [of L req st now]
  show "crew (snd (register L req st now)) = crew st" by auto
qed

theorem register_duplicate_passport_witness:
  "register example_lib (crew_form ''Jane Doe'' ''Captain'' ''Ab123'') jane_state 7
     = (Inl DuplicateKey, jane_state)
   \<and> register example_lib (crew_form ''Jane Doe'' ''Captain'' ''AB123'') jane_state 7
     = (Inl DuplicateKey, jane_state)
   \<and> distinct (map passport (crew (snd (register example_lib
         (crew_form ''Jane Doe'' ''Captain'' ''Ab123'') jane_state 7))))"
proof -
  let ?req = "crew_form ''Jane Doe'' ''Captain'' ''Ab123''"
  let ?req2 = "crew_form ''Jane Doe'' ''Captain'' ''AB123''"
  have d: "distinct (map passport (crew jane_state))" by (simp add: crew_jane_state)
  have j: "jane \<in> set (crew jane_state)" by (simp add: crew_jane_state)
  have "passport jane = str_upper example_lib (str_strip example_lib ''ab123'')
        \<and> ascii_case_variant ''ab123'' (form_get ?req ''passport'')"
    by (simp add: jane_def strip_examples upper_examples case_variant_examples
        crew_form_fields)
  with j have "\<exists>c \<in> set (crew jane_state). \<exists>q.
                 passport c = str_upper example_lib (str_strip example_lib q)
               \<and> ascii_case_variant q (form_get ?req ''passport'')" by blast
  moreover have "http_method ?req = ''POST''
        \<and> str_strip example_lib (form_get ?req ''name'') \<noteq> []
        \<and> str_strip example_lib (form_get ?req ''rank'') \<noteq> []
        \<and> str_strip example_lib (form_get ?req ''passport'') \<noteq> []"
    by (simp add: crew_form_fields strip_examples)
  ultimately have h: "ascii_lib example_lib \<and> http_method ?req = ''POST''
        \<and> str_strip example_lib (form_get ?req ''name'') \<noteq> []
        \<and> str_strip example_lib (form_get ?req ''rank'') \<noteq> []
        \<and> str_strip example_lib (form_get ?req ''passport'') \<noteq> []
        \<and> (\<exists>c \<in> set (crew jane_state). \<exists>q.
               passport c = str_upper example_lib (str_strip example_lib q)
               \<and> ascii_case_variant q (form_get ?req ''passport''))"
    using ascii_lib_example by blast
  have "passport jane
          = str_upper example_lib (str_strip example_lib (form_get ?req2 ''passport''))"
    by (simp add: jane_def strip_examples upper_examples crew_form_fields)
  with j have "\<exists>c \<in> set (crew jane_state).
      passport c = str_upper example_lib (str_strip example_lib (form_get ?req2 ''passport''))"
    by blast
  moreover have "http_method ?req2 = ''POST''
        \<and> str_strip example_lib (form_get ?req2 ''name'') \<noteq> []
        \<and> str_strip example_lib (form_get ?req2 ''rank'') \<noteq> []
        \<and> str_strip example_lib (form_get ?req2 ''passport'') \<noteq> []"
    by (simp add: crew_form_fields strip_examples)
  ultimately have h2: "http_method ?req2 = ''POST''
        \<and> str_strip example_lib (form_get ?req2 ''name'') \<noteq> []
        \<and> str_strip example_lib (form_get ?req2 ''rank'') \<noteq> []
        \<and> str_strip example_lib (form_get ?req2 ''passport'') \<noteq> []
        \<and> (\<exists>c \<in> set (crew jane_state).
               passport c
                 = str_upper example_lib (str_strip example_lib (form_get ?req2 ''passport'')))"
    by blast
  from register_duplicate_passport [of example_lib 0 "[]" jane_state ?req 7] h d
  have a: "register example_lib ?req jane_state 7 = (Inl DuplicateKey, jane_state)
           \<and> distinct (map passport (crew (snd (register example_lib ?req jane_state 7))))"
    by blast
  from register_duplicate_passport [of example_lib 0 "[]" jane_state ?req2 7] h2
  have b: "register example_lib ?req2 jane_state 7 = (Inl DuplicateKey, jane_state)"
    by blast
  from a b d show ?thesis by simp
qed


section \<open>Registration and tracking\<close>

lemma find_snoc_new:
  "\<not> (\<exists>x \<in> set xs. P x) \<Longrightarrow> P y \<Longrightarrow> find P (xs @ [y]) = Some y"
  by (induction xs) simp_all

lemma track_post:
  assumes "http_method req = ''POST''"
    and "str_upper L (str_strip L (form_get req ''passport'')) \<noteq> []"
  shows "track L req st =
           (case find (\<lambda>x. passport x = str_upper L (str_strip L (form_get req ''passport'')))
                   (crew st) of
              Some x \<Rightarrow> Inr (TrackerResult x)
            | None \<Rightarrow> Inl NotFound)"
  using assms by (simp add: track_def Let_def)

lemma ascii_upper_nonempty: "s \<noteq> [] \<Longrightarrow> ascii_upper s \<noteq> []"
  by (simp add: ascii_upper_def)

lemma register_jane:
  "fst (register example_lib (crew_form ''Jane Doe'' ''Captain'' ''ab123'')
          (init_state example_lib 0) 5) = Inr (ThankYou jane)"
  by (simp add: register_def crew_form_fields strip_examples upper_examples init_state_def
      parse_date_def parse_int_def save_uploaded_file_def insert_crew_def new_id_def jane_def
      Let_def)

lemma passport_form_fields:
  "http_method (passport_form p) = ''POST''"
  "form_get (passport_form p) ''passport'' = p"
  by (simp_all add: passport_form_def form_get_def)

text \<open>
  Claim C8, as stated, fails: registration does not store \<open>upper p\<close> for every
  passport string \<open>p\<close>. For the submitted passport " ab123", with a leading space, the
  stored passport is "AB123", while the upper-cased input is " AB123".
\<close>

theorem register_then_track_counterexample:
  "map passport (crew (snd (register example_lib
       (crew_form ''Jane Doe'' ''Captain'' '' ab123'') (init_state example_lib 0) 5)))
     = [''AB123'']
   \<and> str_upper example_lib '' ab123'' = '' AB123''
   \<and> ''AB123'' \<noteq> str_upper example_lib '' ab123''"
  by (simp add: register_def crew_form_fields strip_examples upper_examples init_state_def
      parse_date_def parse_int_def save_uploaded_file_def insert_crew_def new_id_def Let_def)

text \<open>
  Claim C8, amended. A successful registration with passport \<open>p\<close> stores the trimmed,
  upper-cased \<open>p\<close> as the record's passport, with status 0 (registering "ab123" stores
  "AB123"). \<open>track\<close> trims and upper-cases its argument before the query, so a POST
  to \<open>track\<close> with any passport whose trimmed, upper-cased form is the stored,
  non-empty passport finds the record just registered. For ASCII passports, where the
  string methods are the ASCII ones, that is every case variant of \<open>p\<close>.
\<close>

theorem register_then_track:
  assumes "register L req st now = (Inr (ThankYou c), st')"
  shows "passport c = str_upper L (str_strip L (form_get req ''passport''))
       \<and> status c = 0
       \<and> c \<in> set (crew st')
       \<and> (passport c \<noteq> [] \<longrightarrow>
            (\<forall>req'. http_method req' = ''POST''
                \<and> str_upper L (str_strip L (form_get req' ''passport''))
                    = str_upper L (str_strip L (form_get req ''passport''))
              \<longrightarrow> track L req' st' = Inr (TrackerResult c)))
       \<and> (ascii_lib L \<longrightarrow>
            (\<forall>req'. http_method req' = ''POST''
                \<and> ascii_case_variant (form_get req' ''passport'') (form_get req ''passport'')
              \<longrightarrow> track L req' st' = Inr (TrackerResult c)))
       \<and> (\<forall>req' st''. http_method req' = ''POST''
              \<and> str_upper L (str_strip L (form_get req' ''passport'')) \<noteq> []
            \<longrightarrow> track L req' st'' =
                  (case find (\<lambda>x. passport x
                                = str_upper L (str_strip L (form_get req' ''passport'')))
                          (crew st'') of
                     Some x \<Rightarrow> Inr (TrackerResult x)
                   | None \<Rightarrow> Inl NotFound))"
proof -
  let ?p = "form_get req ''passport''"
  from assms have f: "fst (register L req st now) = Inr (ThankYou c)"
    and s: "snd (register L req st now) = st'" by simp_all
  from register_outcome [of L req st now] f s
  have cr: "crew st' = crew st @ [c]"
    and pp: "passport c = str_upper L (str_strip L ?p)"
    and ne: "str_strip L ?p \<noteq> []"
    and new: "passport c \<notin> set (map passport (crew st))"
    and st0: "status c = 0"
    by auto
  have "\<not> (\<exists>x \<in> set (crew st). passport x = passport c)"
  proof
    assume "\<exists>x \<in> set (crew st). passport x = passport c"
    then obtain x where "x \<in> set (crew st)" and "passport x = passport c" by blast
    then have "passport c \<in> passport ` set (crew st)" by (metis imageI)
    with new show False by simp
  qed
  then have found: "find (\<lambda>x. passport x = passport c) (crew st') = Some c"
    unfolding cr by (rule find_snoc_new) simp
  have tr: "track L req' st' = Inr (TrackerResult c)"
    if m: "http_method req' = ''POST''"
      and e: "str_upper L (str_strip L (form_get req' ''passport'')) = passport c"
      and n: "passport c \<noteq> []" for req'
  proof -
    from e n have "str_upper L (str_strip L (form_get req' ''passport'')) \<noteq> []" by simp
    from track_post [OF m this, of st'] e found show ?thesis by simp
  qed
  have same: "passport c \<noteq> [] \<longrightarrow>
            (\<forall>req'. http_method req' = ''POST''
                \<and> str_upper L (str_strip L (form_get req' ''passport''))
                    = str_upper L (str_strip L ?p)
              \<longrightarrow> track L req' st' = Inr (TrackerResult c))"
    using tr pp by simp
  have variant: "ascii_lib L \<longrightarrow>
            (\<forall>req'. http_method req' = ''POST''
                \<and> ascii_case_variant (form_get req' ''passport'') ?p
              \<longrightarrow> track L req' st' = Inr (TrackerResult c))"
  proof (intro impI allI)
    fix req'
    assume L: "ascii_lib L"
      and h: "http_method req' = ''POST''
                \<and> ascii_case_variant (form_get req' ''passport'') ?p"
    then have v: "ascii_case_variant (form_get req' ''passport'') ?p" by simp
    then have a: "is_ascii ?p" by (simp add: ascii_case_variant_def)
    from ascii_lib_normal [OF L a] ne pp
    have n: "passport c \<noteq> []" by (simp add: ascii_upper_nonempty)
    from case_variant_upper_strip [OF L v] pp
    have "str_upper L (str_strip L (form_get req' ''passport'')) = passport c" by simp
    with h n show "track L req' st' = Inr (TrackerResult c)" by (simp add: tr)
  qed
  from pp st0 cr same variant track_post show ?thesis by simp
qed

theorem register_then_track_witness:
  "fst (register example_lib (crew_form ''Jane Doe'' ''Captain'' ''ab123'')
          (init_state example_lib 0) 5) = Inr (ThankYou jane)
   \<and> passport jane = ''AB123'' \<and> status jane = 0
   \<and> track example_lib (passport_form ''Ab123'')
        (snd (register example_lib (crew_form ''Jane Doe'' ''Captain'' ''ab123'')
                (init_state example_lib 0) 5))
       = Inr (TrackerResult jane)"
proof -
  let ?req = "crew_form ''Jane Doe'' ''Captain'' ''ab123''"
  let ?r = "register example_lib ?req (init_state example_lib 0) 5"
  have r: "?r = (Inr (ThankYou jane), snd ?r)"
    using register_jane by (simp add: prod_eq_iff)
  have v: "http_method (passport_form ''Ab123'') = ''POST''
           \<and> ascii_case_variant (form_get (passport_form ''Ab123'') ''passport'')
                (form_get ?req ''passport'')"
    by (simp add: passport_form_fields crew_form_fields case_variant_examples)
  from register_then_track [OF r] ascii_lib_example v
  have "track example_lib (passport_form ''Ab123'') (snd ?r) = Inr (TrackerResult jane)"
    by blast
  moreover have "passport jane = ''AB123'' \<and> status jane = 0" by (simp add: jane_def)
  ultimately show ?thesis using register_jane by simp
qed

end
